theory Spec2Isabelle
  imports Main
begin

section \<open>The GBDX workflow client (gbdxtools/workflow.py)\<close>

text \<open>
  The module is a thin client over an HTTP session. Each method of the class
  \<^verbatim>\<open>Workflow\<close> builds a URL, sends one request through
  \<^verbatim>\<open>self.gbdx_connection\<close>, and reads the answer. The embedding keeps the
  three collaborators of the class explicit:
  \<^item> the session is a record of two functions (\<^verbatim>\<open>get\<close>, \<^verbatim>\<open>post\<close>) that
    either raise or return a response object;
  \<^item> the logger and the standard output are two lists of lines in a record that every
    method takes and returns;
  \<^item> \<^verbatim>\<open>self.s3.info\<close> is a Python value (a dictionary).
  Exceptions are values: every method returns \<open>exn + result\<close> together with the
  lines written so far.
\<close>

subsection \<open>Python values and exceptions\<close>

text \<open>
  The values that \<^verbatim>\<open>json.loads\<close> and \<^verbatim>\<open>r.json()\<close> produce, and that
  \<^verbatim>\<open>json=\<close> serialises. A dictionary is an association list with distinct keys in
  insertion order. \<open>PNone\<close> is also what a Python function returns when it falls
  off its end. JSON numbers are restricted to integers; the client never inspects one.
\<close>

datatype pyval =
    PNone
  | PBool bool
  | PInt int
  | PStr string
  | PList "pyval list"
  | PDict "(string \<times> pyval) list"

text \<open>
  The exceptions that can travel through the module. \<open>HTTPError\<close> is what
  \<^verbatim>\<open>raise_for_status\<close> raises and carries the status code of its response;
  \<open>ConnectionError\<close> stands for the failures of the transport itself.
\<close>

datatype exn =
    HTTPError int
  | TypeError string
  | KeyError string
  | IndexError string
  | ValueError string
  | AttributeError string
  | ConnectionError string

datatype python = Python2 | Python3

datatype subscript = Key string | Idx int

definition and_then :: "exn + 'a \<Rightarrow> ('a \<Rightarrow> exn + 'b) \<Rightarrow> exn + 'b" where
  "and_then m f = (case m of Inl e \<Rightarrow> Inl e | Inr x \<Rightarrow> f x)"

text \<open>\<^verbatim>\<open>"%s" % n\<close> for an integer: its decimal digits.\<close>

fun str_nat :: "nat \<Rightarrow> string" where
  "str_nat n =
     (if n < 10 then [''0123456789'' ! n]
      else str_nat (n div 10) @ [''0123456789'' ! (n mod 10)])"

declare str_nat.simps [simp del]

definition str_int :: "int \<Rightarrow> string" where
  "str_int i = (if i < 0 then CHR ''-'' # str_nat (nat (- i)) else str_nat (nat i))"

text \<open>
  The position that an integer subscript \<open>i\<close> names in a sequence of \<open>len\<close>
  items: \<open>i\<close> itself from the front, \<open>len + i\<close> for a negative \<open>i\<close> from the
  end, and none outside \<open>-len \<dots> len - 1\<close>.
\<close>

definition py_index :: "nat \<Rightarrow> int \<Rightarrow> nat option" where
  "py_index len i =
     (if 0 \<le> i \<and> i < int len then Some (nat i)
      else if - int len \<le> i \<and> i < 0 then Some (nat (int len + i))
      else None)"

text \<open>
  \<^verbatim>\<open>v[s]\<close>. A dictionary raises KeyError on a missing key; a list or a string takes
  integer indices only and raises IndexError out of range; every other value is not
  subscriptable. The keys of a \<open>PDict\<close> are strings, so an integer is never one of
  them.
\<close>

fun getitem :: "pyval \<Rightarrow> subscript \<Rightarrow> exn + pyval" where
  "getitem (PDict kvs) (Key k) =
     (case map_of kvs k of None \<Rightarrow> Inl (KeyError k) | Some v \<Rightarrow> Inr v)"
| "getitem (PDict kvs) (Idx i) = Inl (KeyError (str_int i))"
| "getitem (PList xs) (Idx i) =
     (case py_index (length xs) i of
        Some k \<Rightarrow> Inr (xs ! k)
      | None \<Rightarrow> Inl (IndexError ''list index out of range''))"
| "getitem (PList xs) (Key k) =
     Inl (TypeError ''list indices must be integers or slices, not str'')"
| "getitem (PStr s) (Idx i) =
     (case py_index (length s) i of
        Some k \<Rightarrow> Inr (PStr [s ! k])
      | None \<Rightarrow> Inl (IndexError ''string index out of range''))"
| "getitem (PStr s) (Key k) = Inl (TypeError ''string indices must be integers'')"
| "getitem v s = Inl (TypeError ''object is not subscriptable'')"

text \<open>\<^verbatim>\<open>v[s1][s2]...[sn]\<close>, read from left to right.\<close>

fun getitems :: "pyval \<Rightarrow> subscript list \<Rightarrow> exn + pyval" where
  "getitems v [] = Inr v"
| "getitems v (s # ss) = and_then (getitem v s) (\<lambda>c. getitems c ss)"

text \<open>
  \<^verbatim>\<open>d[k] = x\<close> on a dictionary replaces the value of an existing key where it
  stands and appends a new key at the end.
\<close>

fun dict_set :: "(string \<times> pyval) list \<Rightarrow> string \<Rightarrow> pyval \<Rightarrow> (string \<times> pyval) list" where
  "dict_set [] k x = [(k, x)]"
| "dict_set ((k', v) # kvs) k x =
     (if k' = k then (k, x) # kvs else (k', v) # dict_set kvs k x)"

text \<open>\<^verbatim>\<open>v[s] = x\<close>: the container after the assignment.\<close>

fun setitem :: "pyval \<Rightarrow> subscript \<Rightarrow> pyval \<Rightarrow> exn + pyval" where
  "setitem (PDict kvs) (Key k) x = Inr (PDict (dict_set kvs k x))"
| "setitem (PList xs) (Idx i) x =
     (case py_index (length xs) i of
        Some k \<Rightarrow> Inr (PList (xs[k := x]))
      | None \<Rightarrow> Inl (IndexError ''list assignment index out of range''))"
| "setitem (PList xs) (Key k) x =
     Inl (TypeError ''list indices must be integers or slices, not str'')"
| "setitem v s x = Inl (TypeError ''object does not support item assignment'')"

text \<open>
  \<^verbatim>\<open>v[s1]...[sn][s] = x\<close>. Python evaluates \<^verbatim>\<open>v[s1]...[sn]\<close> to the inner
  container and mutates it in place, and every outer container sees the change because
  it holds a reference to the inner one. With values instead of references the outer
  containers are rebuilt on the way back.
\<close>

fun assign_at :: "pyval \<Rightarrow> subscript list \<Rightarrow> subscript \<Rightarrow> pyval \<Rightarrow> exn + pyval" where
  "assign_at v [] s x = setitem v s x"
| "assign_at v (s' # ss) s x =
     and_then (getitem v s') (\<lambda>c.
     and_then (assign_at c ss s x) (\<lambda>c'.
     setitem v s' c'))"

text \<open>
  \<^verbatim>\<open>sep.join(xs)\<close>: every item has to be a string.
\<close>

fun join :: "string \<Rightarrow> pyval list \<Rightarrow> exn + string" where
  "join sep [] = Inr ''''"
| "join sep [PStr s] = Inr s"
| "join sep (PStr s # xs) = and_then (join sep xs) (\<lambda>r. Inr (s @ sep @ r))"
| "join sep (v # xs) = Inl (TypeError ''sequence item: expected str instance'')"

text \<open>
  \<^verbatim>\<open>e.message\<close> for a TypeError \<^verbatim>\<open>e\<close> raised with the message \<open>m\<close>. Python 2
  exceptions have the attribute; Python 3 removed it, so reading it raises an
  AttributeError. The module runs on both (it imports \<^verbatim>\<open>print_function\<close> and
  \<^verbatim>\<open>builtins.object\<close>).
\<close>

fun message :: "python \<Rightarrow> string \<Rightarrow> exn + string" where
  "message Python2 m = Inr m"
| "message Python3 m =
     Inl (AttributeError ''TypeError object has no attribute message'')"

subsection \<open>The collaborators: response, session, output\<close>

text \<open>
  A response of the HTTP library, as far as the module reads it: the status code, the
  body as text, and the outcome of \<^verbatim>\<open>r.json()\<close> (a ValueError when the body is not
  JSON).
\<close>

record response =
  status_code :: int
  body_text :: string
  json :: "exn + pyval"

text \<open>
  \<^verbatim>\<open>r.raise_for_status()\<close> of the HTTP library (requests): an HTTPError for a client
  error (4xx) or a server error (5xx), nothing for any other status code.
\<close>

definition raise_for_status :: "response \<Rightarrow> exn + unit" where
  "raise_for_status r =
     (if 400 \<le> status_code r \<and> status_code r < 500 then Inl (HTTPError (status_code r))
      else if 500 \<le> status_code r \<and> status_code r < 600 then Inl (HTTPError (status_code r))
      else Inr ())"

text \<open>
  The authenticated session. \<^verbatim>\<open>get(url)\<close> and
  \<^verbatim>\<open>post(url, data=None, json=None)\<close> either raise or return a response. The
  session raises a TypeError itself when the \<^verbatim>\<open>json=\<close> value cannot be serialised.
\<close>

record gbdx_connection =
  get :: "string \<Rightarrow> exn + response"
  post :: "string \<Rightarrow> pyval \<Rightarrow> pyval \<Rightarrow> exn + response"

record world =
  stdout :: "string list"
  debug_log :: "string list"

definition print :: "string \<Rightarrow> world \<Rightarrow> world" where
  "print s w = w\<lparr>stdout := stdout w @ [s]\<rparr>"

definition logger_debug :: "string \<Rightarrow> world \<Rightarrow> world" where
  "logger_debug s w = w\<lparr>debug_log := debug_log w @ [s]\<rparr>"

subsection \<open>The methods of Workflow\<close>

text \<open>
  \<^verbatim>\<open>launch\<close>. The handler of the outer \<^verbatim>\<open>try\<close> catches a TypeError only, writes
  one debug line and lets the method end without a \<^verbatim>\<open>return\<close>; every other
  exception leaves the method. The inner bare \<^verbatim>\<open>except\<close> prints two lines and calls
  \<^verbatim>\<open>raise_for_status\<close> a second time.
\<close>

definition launch_except :: "exn \<Rightarrow> world \<Rightarrow> (exn + pyval) \<times> world" where
  "launch_except e w =
     (case e of
        TypeError m \<Rightarrow> (Inr PNone, logger_debug ''Workflow not launched!'' w)
      | _ \<Rightarrow> (Inl e, w))"

definition launch_return :: "response \<Rightarrow> world \<Rightarrow> (exn + pyval) \<times> world" where
  "launch_return r w =
     (case and_then (json r) (\<lambda>b. getitem b (Key ''id'')) of
        Inl e \<Rightarrow> launch_except e w
      | Inr workflow_id \<Rightarrow> (Inr workflow_id, w))"

definition launch :: "gbdx_connection \<Rightarrow> pyval \<Rightarrow> world \<Rightarrow> (exn + pyval) \<times> world" where
  "launch c workflow w =
     (let url = ''https://geobigdata.io/workflows/v1/workflows'' in
      case post c url PNone workflow of
        Inl e \<Rightarrow> launch_except e w
      | Inr r \<Rightarrow>
          (case raise_for_status r of
             Inr u \<Rightarrow> launch_return r w
           | Inl e0 \<Rightarrow>
               (let w1 = print (''GBDX API Status Code: '' @ str_int (status_code r)) w;
                    w2 = print (''GBDX API Response: '' @ body_text r) w1
                in case raise_for_status r of
                     Inl e \<Rightarrow> launch_except e w2
                   | Inr u \<Rightarrow> launch_return r w2)))"

definition status :: "gbdx_connection \<Rightarrow> string \<Rightarrow> world \<Rightarrow> (exn + pyval) \<times> world" where
  "status c workflow_id w =
     (let w1 = logger_debug (''Get status of workflow: '' @ workflow_id) w;
          url = ''https://geobigdata.io/workflows/v1/workflows/'' @ workflow_id
      in case get c url of
           Inl e \<Rightarrow> (Inl e, w1)
         | Inr r \<Rightarrow> (and_then (json r) (\<lambda>b. getitem b (Key ''state'')), w1))"

definition events :: "gbdx_connection \<Rightarrow> string \<Rightarrow> world \<Rightarrow> (exn + pyval) \<times> world" where
  "events c workflow_id w =
     (let w1 = logger_debug (''Get events of workflow: '' @ workflow_id) w;
          url = ''https://geobigdata.io/workflows/v1/workflows/'' @ workflow_id @ ''/events''
      in case get c url of
           Inl e \<Rightarrow> (Inl e, w1)
         | Inr r \<Rightarrow> (and_then (json r) (\<lambda>b. getitem b (Key ''Events'')), w1))"

definition cancel :: "gbdx_connection \<Rightarrow> string \<Rightarrow> world \<Rightarrow> (exn + unit) \<times> world" where
  "cancel c workflow_id w =
     (let w1 = logger_debug (''Canceling workflow: '' @ workflow_id) w;
          url = ''https://geobigdata.io/workflows/v1/workflows/'' @ workflow_id @ ''/cancel''
      in case post c url (PStr '''') PNone of
           Inl e \<Rightarrow> (Inl e, w1)
         | Inr r \<Rightarrow> (raise_for_status r, w1))"

definition list_tasks :: "gbdx_connection \<Rightarrow> world \<Rightarrow> (exn + pyval) \<times> world" where
  "list_tasks c w =
     (let url = ''https://geobigdata.io/workflows/v1/tasks''
      in case get c url of
           Inl e \<Rightarrow> (Inl e, w)
         | Inr r \<Rightarrow> (and_then (raise_for_status r) (\<lambda>u. json r), w))"

definition describe_task :: "gbdx_connection \<Rightarrow> string \<Rightarrow> world \<Rightarrow> (exn + pyval) \<times> world" where
  "describe_task c task_name w =
     (let url = ''https://geobigdata.io/workflows/v1/tasks/'' @ task_name
      in case get c url of
           Inl e \<Rightarrow> (Inl e, w)
         | Inr r \<Rightarrow> (and_then (raise_for_status r) (\<lambda>u. json r), w))"

text \<open>
  \<^verbatim>\<open>launch_batch_workflow\<close>. \<open>launch_batch_try\<close> is the body of its
  \<^verbatim>\<open>try\<close>: the request, then \<^verbatim>\<open>r.json()['batch_workflow_id']\<close>, with no look
  at the status code. The handler formats \<^verbatim>\<open>e.message\<close> into the debug line, so
  the line is written only when that attribute can be read.
\<close>

definition launch_batch_except :: "python \<Rightarrow> exn \<Rightarrow> world \<Rightarrow> (exn + pyval) \<times> world" where
  "launch_batch_except py e w =
     (case e of
        TypeError m \<Rightarrow>
          (case message py m of
             Inl e' \<Rightarrow> (Inl e', w)
           | Inr s \<Rightarrow>
               (Inr PNone, logger_debug (''Batch Workflow not launched, reason: '' @ s) w))
      | _ \<Rightarrow> (Inl e, w))"

definition launch_batch_try :: "gbdx_connection \<Rightarrow> pyval \<Rightarrow> exn + pyval" where
  "launch_batch_try c batch_workflow =
     (let url = ''https://geobigdata.io/workflows/v1/batch_workflows'' in
      and_then (post c url PNone batch_workflow) (\<lambda>r.
      and_then (json r) (\<lambda>b. getitem b (Key ''batch_workflow_id''))))"

definition launch_batch_workflow ::
  "python \<Rightarrow> gbdx_connection \<Rightarrow> pyval \<Rightarrow> world \<Rightarrow> (exn + pyval) \<times> world" where
  "launch_batch_workflow py c batch_workflow w =
     (case launch_batch_try c batch_workflow of
        Inl e \<Rightarrow> launch_batch_except py e w
      | Inr batch_workflow_id \<Rightarrow> (Inr batch_workflow_id, w))"

definition batch_workflow_status ::
  "gbdx_connection \<Rightarrow> string \<Rightarrow> world \<Rightarrow> (exn + pyval) \<times> world" where
  "batch_workflow_status c batch_workflow_id w =
     (let w1 = logger_debug (''Get status of batch workflow: '' @ batch_workflow_id) w;
          url = ''https://geobigdata.io/workflows/v1/batch_workflows/'' @ batch_workflow_id
      in case get c url of
           Inl e \<Rightarrow> (Inl e, w1)
         | Inr r \<Rightarrow> (json r, w1))"

definition batch_workflow_cancel ::
  "gbdx_connection \<Rightarrow> string \<Rightarrow> world \<Rightarrow> (exn + pyval) \<times> world" where
  "batch_workflow_cancel c batch_workflow_id w =
     (let w1 = logger_debug (''Cancel batch workflow: '' @ batch_workflow_id) w;
          url = ''https://geobigdata.io/workflows/v1/batch_workflows/'' @ batch_workflow_id
                  @ ''/cancel''
      in case post c url PNone PNone of
           Inl e \<Rightarrow> (Inl e, w1)
         | Inr r \<Rightarrow> (json r, w1))"

subsection \<open>launch\_aop\_to\_s3\<close>

text \<open>
  The dictionary that \<^verbatim>\<open>json.loads\<close> returns for the literal of the method. The first
  task of the literal writes the key \<^verbatim>\<open>containerDescriptors\<close> twice with the same
  value; the parsed dictionary has it once, where it first stands.
\<close>

definition raid :: pyval where
  "raid = PList [PDict [(''properties'', PDict [(''domain'', PStr ''raid'')])]]"

definition aop_to_s3_template :: pyval where
  "aop_to_s3_template =
     PDict [
       (''tasks'', PList [
          PDict [
            (''containerDescriptors'', raid),
            (''name'', PStr ''AOP''),
            (''inputs'', PList [
               PDict [(''name'', PStr ''data''), (''value'', PStr ''INPUT_BUCKET'')],
               PDict [(''name'', PStr ''bands''), (''value'', PStr ''Auto'')],
               PDict [(''name'', PStr ''enable_acomp''), (''value'', PStr ''false'')],
               PDict [(''name'', PStr ''enable_dra''), (''value'', PStr ''false'')],
               PDict [(''name'', PStr ''ortho_epsg''), (''value'', PStr ''EPSG:4326'')],
               PDict [(''name'', PStr ''enable_pansharpen''), (''value'', PStr ''false'')]]),
            (''outputs'', PList [
               PDict [(''name'', PStr ''data'')],
               PDict [(''name'', PStr ''log'')]]),
            (''timeout'', PInt 36000),
            (''taskType'', PStr ''AOP_Strip_Processor'')],
          PDict [
            (''inputs'', PList [
               PDict [(''source'', PStr ''AOP:data''), (''name'', PStr ''data'')],
               PDict [(''name'', PStr ''destination''), (''value'', PStr ''OUTPUT_BUCKET'')]]),
            (''name'', PStr ''StageToS3''),
            (''taskType'', PStr ''StageDataToS3''),
            (''containerDescriptors'', raid)]]),
       (''name'', PStr ''aop_to_s3'')]"

text \<open>
  Lines 214 to 273 of the method: the template with the arguments written into it.
  \<open>info\<close> is \<^verbatim>\<open>self.s3.info\<close>.
\<close>

definition aop_to_s3 ::
  "pyval \<Rightarrow> string \<Rightarrow> string \<Rightarrow> string \<Rightarrow> string \<Rightarrow> string \<Rightarrow> string \<Rightarrow> string \<Rightarrow> exn + pyval" where
  "aop_to_s3 info input_location output_location bands ortho_epsg enable_pansharpen
       enable_acomp enable_dra =
     and_then (assign_at aop_to_s3_template [Key ''tasks'', Idx 0, Key ''inputs'', Idx 0]
                 (Key ''value'') (PStr input_location)) (\<lambda>a1.
     and_then (assign_at a1 [Key ''tasks'', Idx 0, Key ''inputs'', Idx 1]
                 (Key ''value'') (PStr bands)) (\<lambda>a2.
     and_then (assign_at a2 [Key ''tasks'', Idx 0, Key ''inputs'', Idx 2]
                 (Key ''value'') (PStr enable_acomp)) (\<lambda>a3.
     and_then (assign_at a3 [Key ''tasks'', Idx 0, Key ''inputs'', Idx 3]
                 (Key ''value'') (PStr enable_dra)) (\<lambda>a4.
     and_then (assign_at a4 [Key ''tasks'', Idx 0, Key ''inputs'', Idx 4]
                 (Key ''value'') (PStr ortho_epsg)) (\<lambda>a5.
     and_then (assign_at a5 [Key ''tasks'', Idx 0, Key ''inputs'', Idx 5]
                 (Key ''value'') (PStr enable_pansharpen)) (\<lambda>a6.
     and_then (getitem info (Key ''bucket'')) (\<lambda>bucket.
     and_then (getitem info (Key ''prefix'')) (\<lambda>prefix.
     and_then (join ''/'' [bucket, prefix, PStr output_location]) (\<lambda>joined.
     assign_at a6 [Key ''tasks'', Idx 1, Key ''inputs'', Idx 1]
       (Key ''value'') (PStr (''s3://'' @ joined)))))))))))"

text \<open>
  The method itself. An optional argument that the caller leaves out is \<open>None\<close>
  here and takes the default of the signature.
\<close>

definition launch_aop_to_s3 ::
  "gbdx_connection \<Rightarrow> pyval \<Rightarrow> string \<Rightarrow> string \<Rightarrow> string option \<Rightarrow> string option \<Rightarrow>
     string option \<Rightarrow> string option \<Rightarrow> string option \<Rightarrow> world \<Rightarrow> (exn + pyval) \<times> world" where
  "launch_aop_to_s3 c info input_location output_location bands ortho_epsg
       enable_pansharpen enable_acomp enable_dra w =
     (case aop_to_s3 info input_location output_location
             (case bands of None \<Rightarrow> ''Auto'' | Some b \<Rightarrow> b)
             (case ortho_epsg of None \<Rightarrow> ''EPSG:4326'' | Some p \<Rightarrow> p)
             (case enable_pansharpen of None \<Rightarrow> ''false'' | Some p \<Rightarrow> p)
             (case enable_acomp of None \<Rightarrow> ''false'' | Some a \<Rightarrow> a)
             (case enable_dra of None \<Rightarrow> ''false'' | Some d \<Rightarrow> d) of
        Inl e \<Rightarrow> (Inl e, w)
      | Inr workflow \<Rightarrow> launch c workflow (logger_debug ''Launch workflow'' w))"

subsection \<open>The ordering invariant of a workflow definition\<close>

text \<open>
  The data model asks that a task named by a \<^verbatim>\<open>source\<close> reference stands earlier
  in the task sequence than the task that reads it. A reference is written
  \<^verbatim>\<open>task:port\<close>; \<open>source_task\<close> is the part before the colon.
  \<open>producers_first seen ts\<close> walks the sequence with the names of the tasks
  already passed.
\<close>

definition source_task :: "string \<Rightarrow> string" where
  "source_task s = takeWhile (\<lambda>ch. ch \<noteq> CHR '':'') s"

definition task_names :: "pyval \<Rightarrow> string list" where
  "task_names t = (case getitem t (Key ''name'') of Inr (PStr n) \<Rightarrow> [n] | _ \<Rightarrow> [])"

definition input_sources :: "pyval \<Rightarrow> string list" where
  "input_sources t =
     (case getitem t (Key ''inputs'') of
        Inr (PList ins) \<Rightarrow>
          concat (map (\<lambda>i. case getitem i (Key ''source'') of
                              Inr (PStr s) \<Rightarrow> [s]
                            | _ \<Rightarrow> []) ins)
      | _ \<Rightarrow> [])"

fun producers_first :: "string list \<Rightarrow> pyval list \<Rightarrow> bool" where
  "producers_first seen [] = True"
| "producers_first seen (t # ts) =
     (list_all (\<lambda>s. source_task s \<in> set seen) (input_sources t)
      \<and> producers_first (seen @ task_names t) ts)"

definition producer_before_consumer :: "pyval \<Rightarrow> bool" where
  "producer_before_consumer workflow =
     (case getitem workflow (Key ''tasks'') of
        Inr (PList ts) \<Rightarrow> producers_first [] ts
      | _ \<Rightarrow> False)"

subsection \<open>A mocked transport\<close>

text \<open>
  A session that gives the same answer to every request, and an output with nothing
  written yet: the concrete inputs of the examples below.
\<close>

definition mock :: "exn + response \<Rightarrow> gbdx_connection" where
  "mock answer = \<lparr>get = (\<lambda>url. answer), post = (\<lambda>url data js. answer)\<rparr>"

definition w0 :: world where
  "w0 = \<lparr>stdout = [], debug_log = []\<rparr>"

section \<open>Properties\<close>

subsection \<open>Shared facts\<close>

lemma raise_for_status_error:
  "400 \<le> status_code r \<and> status_code r < 600 \<Longrightarrow>
     raise_for_status r = Inl (HTTPError (status_code r))"
  by (auto simp: raise_for_status_def)

lemma raise_for_status_pass:
  "\<not> (400 \<le> status_code r \<and> status_code r < 600) \<Longrightarrow> raise_for_status r = Inr ()"
  by (auto simp: raise_for_status_def)

text \<open>
  The dictionary that \<^verbatim>\<open>launch_aop_to_s3\<close> hands to \<^verbatim>\<open>launch\<close>, for any
  arguments, once \<^verbatim>\<open>self.s3.info\<close> has a bucket and a prefix that are strings.
\<close>

lemma aop_to_s3_value:
  assumes "getitem info (Key ''bucket'') = Inr (PStr bucket)"
    and "getitem info (Key ''prefix'') = Inr (PStr prefix)"
  shows "aop_to_s3 info il ol b oe ep ea ed = Inr (PDict [
       (''tasks'', PList [
          PDict [
            (''containerDescriptors'', raid),
            (''name'', PStr ''AOP''),
            (''inputs'', PList [
               PDict [(''name'', PStr ''data''), (''value'', PStr il)],
               PDict [(''name'', PStr ''bands''), (''value'', PStr b)],
               PDict [(''name'', PStr ''enable_acomp''), (''value'', PStr ea)],
               PDict [(''name'', PStr ''enable_dra''), (''value'', PStr ed)],
               PDict [(''name'', PStr ''ortho_epsg''), (''value'', PStr oe)],
               PDict [(''name'', PStr ''enable_pansharpen''), (''value'', PStr ep)]]),
            (''outputs'', PList [
               PDict [(''name'', PStr ''data'')],
               PDict [(''name'', PStr ''log'')]]),
            (''timeout'', PInt 36000),
            (''taskType'', PStr ''AOP_Strip_Processor'')],
          PDict [
            (''inputs'', PList [
               PDict [(''source'', PStr ''AOP:data''), (''name'', PStr ''data'')],
               PDict [(''name'', PStr ''destination''),
                      (''value'', PStr (''s3://'' @ bucket @ ''/'' @ prefix @ ''/'' @ ol))]]),
            (''name'', PStr ''StageToS3''),
            (''taskType'', PStr ''StageDataToS3''),
            (''containerDescriptors'', raid)]]),
       (''name'', PStr ''aop_to_s3'')])"
  using assms by (simp add: aop_to_s3_def aop_to_s3_template_def and_then_def py_index_def)

text \<open>
  Without a bucket in \<^verbatim>\<open>self.s3.info\<close> the method raises before anything is sent.
\<close>

lemma aop_to_s3_no_bucket:
  "getitem info (Key ''bucket'') = Inl e \<Longrightarrow> aop_to_s3 info il ol b oe ep ea ed = Inl e"
  by (simp add: aop_to_s3_def aop_to_s3_template_def and_then_def py_index_def)

subsection \<open>status\<close>

text \<open>
  The result of \<^verbatim>\<open>status\<close> is read from the body alone: two responses that differ
  in their status code only give the same result.
\<close>

lemma status_ignores_status_code:
  assumes "get c (''https://geobigdata.io/workflows/v1/workflows/'' @ workflow_id) = Inr r"
    and "get c' (''https://geobigdata.io/workflows/v1/workflows/'' @ workflow_id)
           = Inr (r\<lparr>status_code := code\<rparr>)"
  shows "status c' workflow_id w = status c workflow_id w"
  using assms by (simp add: status_def)

text \<open>
  C1. The claim: on a response to the status request whose code is not 2xx, in particular
  500 with the body \<^verbatim>\<open>server error\<close>, \<^verbatim>\<open>status\<close> fails with the error of a
  failed request that carries the code. The method never calls
  \<^verbatim>\<open>raise_for_status\<close>, as \<^verbatim>\<open>cancel\<close>, \<^verbatim>\<open>list_tasks\<close>,
  \<^verbatim>\<open>describe_task\<close> and \<^verbatim>\<open>launch\<close> do. At the response 500 it goes on to
  \<^verbatim>\<open>r.json()['state']\<close>: a body that is not JSON raises the decoder's ValueError, a
  body that is the JSON string raises a TypeError, and a body with a \<^verbatim>\<open>state\<close> field
  is answered as if the request had succeeded. None of the three is an HTTPError.
\<close>

theorem status_500_server_error:
  \<open>status (mock (Inr \<lparr>status_code = 500, body_text = ''server error'',
       json = Inl (ValueError ''Expecting value: line 1 column 1 (char 0)'')\<rparr>)) ''wf-1'' w0
     = (Inl (ValueError ''Expecting value: line 1 column 1 (char 0)''),
        \<lparr>stdout = [], debug_log = [''Get status of workflow: wf-1'']\<rparr>)
   \<and> status (mock (Inr \<lparr>status_code = 500, body_text = ''"server error"'',
       json = Inr (PStr ''server error'')\<rparr>)) ''wf-1'' w0
     = (Inl (TypeError ''string indices must be integers''),
        \<lparr>stdout = [], debug_log = [''Get status of workflow: wf-1'']\<rparr>)
   \<and> status (mock (Inr \<lparr>status_code = 500, body_text = ''{"state": "running"}'',
       json = Inr (PDict [(''state'', PStr ''running'')])\<rparr>)) ''wf-1'' w0
     = (Inr (PStr ''running''),
        \<lparr>stdout = [], debug_log = [''Get status of workflow: wf-1'']\<rparr>)\<close>
  by (simp add: status_def mock_def w0_def logger_debug_def and_then_def)

subsection \<open>launch\_aop\_to\_s3\<close>

text \<open>
  C2. With a bucket and a prefix in \<^verbatim>\<open>self.s3.info\<close>,
  \<^verbatim>\<open>launch_aop_to_s3("s3://in/path", "out/prefix")\<close> with every optional argument
  left out hands \<^verbatim>\<open>launch\<close> a workflow whose first task has the inputs
  \<^verbatim>\<open>data\<close> = the input location, \<^verbatim>\<open>bands\<close> = Auto, \<^verbatim>\<open>enable_acomp\<close> = false,
  \<^verbatim>\<open>enable_dra\<close> = false, \<^verbatim>\<open>ortho_epsg\<close> = EPSG:4326 and
  \<^verbatim>\<open>enable_pansharpen\<close> = false, and whose second task has the input
  \<^verbatim>\<open>destination\<close> = s3://bucket/prefix/out/prefix.
\<close>

theorem launch_aop_to_s3_default_payload:
  assumes "getitem info (Key ''bucket'') = Inr (PStr bucket)"
    and "getitem info (Key ''prefix'') = Inr (PStr prefix)"
  shows "\<exists>workflow.
     aop_to_s3 info ''s3://in/path'' ''out/prefix'' ''Auto'' ''EPSG:4326'' ''false'' ''false''
       ''false'' = Inr workflow
   \<and> launch_aop_to_s3 c info ''s3://in/path'' ''out/prefix'' None None None None None w
       = launch c workflow (logger_debug ''Launch workflow'' w)
   \<and> getitems workflow [Key ''tasks'', Idx 0, Key ''inputs'', Idx 0]
       = Inr (PDict [(''name'', PStr ''data''), (''value'', PStr ''s3://in/path'')])
   \<and> getitems workflow [Key ''tasks'', Idx 0, Key ''inputs'', Idx 1]
       = Inr (PDict [(''name'', PStr ''bands''), (''value'', PStr ''Auto'')])
   \<and> getitems workflow [Key ''tasks'', Idx 0, Key ''inputs'', Idx 2]
       = Inr (PDict [(''name'', PStr ''enable_acomp''), (''value'', PStr ''false'')])
   \<and> getitems workflow [Key ''tasks'', Idx 0, Key ''inputs'', Idx 3]
       = Inr (PDict [(''name'', PStr ''enable_dra''), (''value'', PStr ''false'')])
   \<and> getitems workflow [Key ''tasks'', Idx 0, Key ''inputs'', Idx 4]
       = Inr (PDict [(''name'', PStr ''ortho_epsg''), (''value'', PStr ''EPSG:4326'')])
   \<and> getitems workflow [Key ''tasks'', Idx 0, Key ''inputs'', Idx 5]
       = Inr (PDict [(''name'', PStr ''enable_pansharpen''), (''value'', PStr ''false'')])
   \<and> getitems workflow [Key ''tasks'', Idx 1, Key ''inputs'', Idx 1]
       = Inr (PDict [(''name'', PStr ''destination''),
                     (''value'', PStr (''s3://'' @ bucket @ ''/'' @ prefix @ ''/out/prefix''))])"
proof -
  note built = aop_to_s3_value [OF assms, of "''s3://in/path''" "''out/prefix''" "''Auto''"
      "''EPSG:4326''" "''false''" "''false''" "''false''"]
  show ?thesis
    unfolding built launch_aop_to_s3_def by (simp add: built and_then_def py_index_def)
qed

text \<open>The same at the bucket \<^verbatim>\<open>gbd-customer-data\<close> and the prefix \<^verbatim>\<open>acct-17\<close>.\<close>

theorem launch_aop_to_s3_default_payload_witness:
  "\<exists>workflow.
     aop_to_s3 (PDict [(''bucket'', PStr ''gbd-customer-data''), (''prefix'', PStr ''acct-17'')])
       ''s3://in/path'' ''out/prefix'' ''Auto'' ''EPSG:4326'' ''false'' ''false'' ''false''
       = Inr workflow
   \<and> launch_aop_to_s3 (mock (Inl (ConnectionError ''offline'')))
       (PDict [(''bucket'', PStr ''gbd-customer-data''), (''prefix'', PStr ''acct-17'')])
       ''s3://in/path'' ''out/prefix'' None None None None None w0
       = launch (mock (Inl (ConnectionError ''offline''))) workflow
           (logger_debug ''Launch workflow'' w0)
   \<and> getitems workflow [Key ''tasks'', Idx 0, Key ''inputs'', Idx 0]
       = Inr (PDict [(''name'', PStr ''data''), (''value'', PStr ''s3://in/path'')])
   \<and> getitems workflow [Key ''tasks'', Idx 0, Key ''inputs'', Idx 1]
       = Inr (PDict [(''name'', PStr ''bands''), (''value'', PStr ''Auto'')])
   \<and> getitems workflow [Key ''tasks'', Idx 0, Key ''inputs'', Idx 2]
       = Inr (PDict [(''name'', PStr ''enable_acomp''), (''value'', PStr ''false'')])
   \<and> getitems workflow [Key ''tasks'', Idx 0, Key ''inputs'', Idx 3]
       = Inr (PDict [(''name'', PStr ''enable_dra''), (''value'', PStr ''false'')])
   \<and> getitems workflow [Key ''tasks'', Idx 0, Key ''inputs'', Idx 4]
       = Inr (PDict [(''name'', PStr ''ortho_epsg''), (''value'', PStr ''EPSG:4326'')])
   \<and> getitems workflow [Key ''tasks'', Idx 0, Key ''inputs'', Idx 5]
       = Inr (PDict [(''name'', PStr ''enable_pansharpen''), (''value'', PStr ''false'')])
   \<and> getitems workflow [Key ''tasks'', Idx 1, Key ''inputs'', Idx 1]
       = Inr (PDict [(''name'', PStr ''destination''),
                     (''value'', PStr ''s3://gbd-customer-data/acct-17/out/prefix'')])"
proof -
  have bucket: "getitem (PDict [(''bucket'', PStr ''gbd-customer-data''),
      (''prefix'', PStr ''acct-17'')]) (Key ''bucket'') = Inr (PStr ''gbd-customer-data'')"
    by simp
  have prefix: "getitem (PDict [(''bucket'', PStr ''gbd-customer-data''),
      (''prefix'', PStr ''acct-17'')]) (Key ''prefix'') = Inr (PStr ''acct-17'')"
    by simp
  show ?thesis
    using launch_aop_to_s3_default_payload [OF bucket prefix,
        of "mock (Inl (ConnectionError ''offline''))" w0]
    by simp
qed

text \<open>
  C9. For every choice of the arguments, and every bucket and prefix, the workflow that
  \<^verbatim>\<open>launch_aop_to_s3\<close> builds keeps the producer before the consumer: its only
  \<^verbatim>\<open>source\<close> reference is \<^verbatim>\<open>AOP:data\<close> in the second task (StageToS3), and the
  task \<^verbatim>\<open>AOP\<close> is the first one.
\<close>

theorem aop_to_s3_producer_before_consumer:
  assumes "getitem info (Key ''bucket'') = Inr (PStr bucket)"
    and "getitem info (Key ''prefix'') = Inr (PStr prefix)"
  shows "\<exists>workflow.
     aop_to_s3 info input_location output_location bands ortho_epsg enable_pansharpen
       enable_acomp enable_dra = Inr workflow
   \<and> producer_before_consumer workflow
   \<and> getitems workflow [Key ''tasks'', Idx 0, Key ''name''] = Inr (PStr ''AOP'')
   \<and> and_then (getitems workflow [Key ''tasks'', Idx 0]) (\<lambda>t. Inr (input_sources t)) = Inr []
   \<and> and_then (getitems workflow [Key ''tasks'', Idx 1]) (\<lambda>t. Inr (input_sources t))
        = Inr [''AOP:data'']"
proof -
  note built = aop_to_s3_value [OF assms, of input_location output_location bands ortho_epsg
      enable_pansharpen enable_acomp enable_dra]
  have first: "source_task ''AOP:data'' = ''AOP''"
    by (simp add: source_task_def)
  show ?thesis
    unfolding built
    by (simp add: producer_before_consumer_def input_sources_def task_names_def first
        and_then_def py_index_def)
qed

text \<open>
  An instance with every argument given, one of them a string with a colon in it.
\<close>

theorem aop_to_s3_producer_before_consumer_witness:
  "\<exists>workflow.
     aop_to_s3 (PDict [(''bucket'', PStr ''gbd-customer-data''), (''prefix'', PStr ''acct-17'')])
       ''s3://receiving-dgcs-tdgplatform-com/055249130010_01_003'' ''proj/aop''
       ''MS'' ''EPSG:32633'' ''true'' ''true'' ''false'' = Inr workflow
   \<and> producer_before_consumer workflow
   \<and> getitems workflow [Key ''tasks'', Idx 0, Key ''name''] = Inr (PStr ''AOP'')
   \<and> and_then (getitems workflow [Key ''tasks'', Idx 0]) (\<lambda>t. Inr (input_sources t)) = Inr []
   \<and> and_then (getitems workflow [Key ''tasks'', Idx 1]) (\<lambda>t. Inr (input_sources t))
        = Inr [''AOP:data'']"
proof -
  have bucket: "getitem (PDict [(''bucket'', PStr ''gbd-customer-data''),
      (''prefix'', PStr ''acct-17'')]) (Key ''bucket'') = Inr (PStr ''gbd-customer-data'')"
    by simp
  have prefix: "getitem (PDict [(''bucket'', PStr ''gbd-customer-data''),
      (''prefix'', PStr ''acct-17'')]) (Key ''prefix'') = Inr (PStr ''acct-17'')"
    by simp
  show ?thesis
    by (rule aop_to_s3_producer_before_consumer [OF bucket prefix])
qed

text \<open>
  The invariant is a property of what the method builds, not of every dictionary: a
  workflow whose only task reads from a task that does not exist breaks it.
\<close>

lemma producer_before_consumer_can_fail:
  "\<not> producer_before_consumer
        (PDict [(''tasks'', PList [PDict [(''name'', PStr ''StageToS3''),
           (''inputs'', PList [PDict [(''source'', PStr ''AOP:data''),
                                      (''name'', PStr ''data'')]])]])])"
  by (simp add: producer_before_consumer_def input_sources_def source_task_def)

subsection \<open>launch\<close>

text \<open>
  C3. The claim: on a 2xx response \<^verbatim>\<open>launch\<close> returns the \<^verbatim>\<open>id\<close> field of the
  JSON body, and on every other response it prints the status code and the body and
  then fails with the error of a failed request. The check is
  \<^verbatim>\<open>raise_for_status\<close>, which raises for 4xx and 5xx only. What holds: on a 4xx or
  5xx response the two lines are printed and the HTTPError carrying the code leaves the
  method; on any other response (every 2xx among them) whose JSON body has an
  \<^verbatim>\<open>id\<close> field, that field is returned and nothing is printed.
\<close>

theorem launch_by_status:
  assumes "post c ''https://geobigdata.io/workflows/v1/workflows'' PNone workflow = Inr r"
  shows "(400 \<le> status_code r \<and> status_code r < 600 \<longrightarrow>
            launch c workflow w =
              (Inl (HTTPError (status_code r)),
               print (''GBDX API Response: '' @ body_text r)
                 (print (''GBDX API Status Code: '' @ str_int (status_code r)) w)))
       \<and> (\<not> (400 \<le> status_code r \<and> status_code r < 600) \<longrightarrow>
            (\<forall>b v. json r = Inr b \<and> getitem b (Key ''id'') = Inr v \<longrightarrow>
               launch c workflow w = (Inr v, w)))"
proof (intro conjI impI allI)
  assume bad: "400 \<le> status_code r \<and> status_code r < 600"
  show "launch c workflow w =
              (Inl (HTTPError (status_code r)),
               print (''GBDX API Response: '' @ body_text r)
                 (print (''GBDX API Status Code: '' @ str_int (status_code r)) w))"
    using assms raise_for_status_error [OF bad]
    by (simp add: launch_def launch_except_def)
next
  fix b v
  assume ok: "\<not> (400 \<le> status_code r \<and> status_code r < 600)"
    and body: "json r = Inr b \<and> getitem b (Key ''id'') = Inr v"
  show "launch c workflow w = (Inr v, w)"
    using assms raise_for_status_pass [OF ok] body
    by (simp add: launch_def launch_return_def and_then_def)
qed

text \<open>A server error with a body that is not JSON, and a 201 with an identifier.\<close>

theorem launch_by_status_witness:
  \<open>launch (mock (Inr \<lparr>status_code = 500, body_text = ''server error'',
       json = Inl (ValueError ''Expecting value: line 1 column 1 (char 0)'')\<rparr>)) (PDict []) w0
     = (Inl (HTTPError 500),
        \<lparr>stdout = [''GBDX API Status Code: 500'', ''GBDX API Response: server error''],
         debug_log = []\<rparr>)
   \<and> launch (mock (Inr \<lparr>status_code = 201, body_text = ''{"id": "4488"}'',
       json = Inr (PDict [(''id'', PStr ''4488'')])\<rparr>)) (PDict []) w0
     = (Inr (PStr ''4488''), w0)\<close>
  using launch_by_status [of "mock (Inr \<lparr>status_code = 500, body_text = ''server error'',
       json = Inl (ValueError ''Expecting value: line 1 column 1 (char 0)'')\<rparr>)" "PDict []" _ w0]
    launch_by_status [of \<open>mock (Inr \<lparr>status_code = 201, body_text = ''{"id": "4488"}'',
       json = Inr (PDict [(''id'', PStr ''4488'')])\<rparr>)\<close> "PDict []" _ w0]
  by (simp add: mock_def w0_def print_def str_int_def str_nat.simps)

text \<open>
  The claim as stated fails at the status 300, which is not 2xx: the identifier is
  returned and nothing is printed.
\<close>

theorem launch_300_counterexample:
  \<open>post (mock (Inr \<lparr>status_code = 300, body_text = ''{"id": "4488"}'',
       json = Inr (PDict [(''id'', PStr ''4488'')])\<rparr>))
       ''https://geobigdata.io/workflows/v1/workflows'' PNone (PDict [])
     = Inr \<lparr>status_code = 300, body_text = ''{"id": "4488"}'',
       json = Inr (PDict [(''id'', PStr ''4488'')])\<rparr>
   \<and> \<not> (200 \<le> (300::int) \<and> (300::int) < 300)
   \<and> launch (mock (Inr \<lparr>status_code = 300, body_text = ''{"id": "4488"}'',
       json = Inr (PDict [(''id'', PStr ''4488'')])\<rparr>)) (PDict []) w0
     = (Inr (PStr ''4488''), w0)\<close>
  by (simp add: mock_def w0_def launch_def launch_return_def raise_for_status_def and_then_def)

text \<open>
  C6. When the session's \<^verbatim>\<open>post\<close> raises a TypeError, \<^verbatim>\<open>launch\<close> swallows it:
  it writes the one debug line \<^verbatim>\<open>Workflow not launched!\<close>, prints nothing, and
  returns None.
\<close>

theorem launch_swallows_TypeError:
  assumes "post c ''https://geobigdata.io/workflows/v1/workflows'' PNone workflow
             = Inl (TypeError m)"
  shows "launch c workflow w
           = (Inr PNone, w\<lparr>debug_log := debug_log w @ [''Workflow not launched!'']\<rparr>)"
  using assms by (simp add: launch_def launch_except_def logger_debug_def)

theorem launch_swallows_TypeError_witness:
  "launch (mock (Inl (TypeError ''Object of type set is not JSON serializable''))) (PStr ''x'') w0
     = (Inr PNone, \<lparr>stdout = [], debug_log = [''Workflow not launched!'']\<rparr>)"
  using launch_swallows_TypeError [of
      "mock (Inl (TypeError ''Object of type set is not JSON serializable''))" "PStr ''x''"
      "''Object of type set is not JSON serializable''" w0]
  by (simp add: mock_def w0_def)

text \<open>Any other exception of the session leaves \<^verbatim>\<open>launch\<close> as it is.\<close>

lemma launch_propagates_ConnectionError:
  "post c ''https://geobigdata.io/workflows/v1/workflows'' PNone workflow
     = Inl (ConnectionError m) \<Longrightarrow>
   launch c workflow w = (Inl (ConnectionError m), w)"
  by (simp add: launch_def launch_except_def)

subsection \<open>cancel\<close>

text \<open>
  C4. The claim: \<^verbatim>\<open>cancel\<close> fails if and only if the status is not 2xx. The check
  is \<^verbatim>\<open>raise_for_status\<close>, so what holds is: \<^verbatim>\<open>cancel\<close> fails if and only if
  the status is 4xx or 5xx, then with the HTTPError carrying the code, and on every 2xx
  it returns nothing.
\<close>

theorem cancel_error_iff:
  assumes "post c (''https://geobigdata.io/workflows/v1/workflows/'' @ workflow_id @ ''/cancel'')
             (PStr '''') PNone = Inr r"
  shows "(isl (fst (cancel c workflow_id w)) \<longleftrightarrow> 400 \<le> status_code r \<and> status_code r < 600)
       \<and> (400 \<le> status_code r \<and> status_code r < 600 \<longrightarrow>
            fst (cancel c workflow_id w) = Inl (HTTPError (status_code r)))
       \<and> (200 \<le> status_code r \<and> status_code r < 300 \<longrightarrow>
            fst (cancel c workflow_id w) = Inr ())"
proof -
  have result: "fst (cancel c workflow_id w) = raise_for_status r"
    using assms by (simp add: cancel_def)
  show ?thesis
  proof (cases "400 \<le> status_code r \<and> status_code r < 600")
    case True
    then show ?thesis
      by (simp add: result raise_for_status_error)
  next
    case False
    then have "raise_for_status r = Inr ()"
      by (rule raise_for_status_pass)
    with False show ?thesis
      by (auto simp: result)
  qed
qed

theorem cancel_error_iff_witness:
  "fst (cancel (mock (Inr \<lparr>status_code = 404, body_text = ''not found'',
       json = Inl (ValueError ''Expecting value'')\<rparr>)) ''wf-1'' w0) = Inl (HTTPError 404)
   \<and> fst (cancel (mock (Inr \<lparr>status_code = 200, body_text = '''',
       json = Inl (ValueError ''Expecting value'')\<rparr>)) ''wf-1'' w0) = Inr ()"
  using cancel_error_iff [of "mock (Inr \<lparr>status_code = 404, body_text = ''not found'',
       json = Inl (ValueError ''Expecting value'')\<rparr>)" "''wf-1''" _ w0]
    cancel_error_iff [of "mock (Inr \<lparr>status_code = 200, body_text = '''',
       json = Inl (ValueError ''Expecting value'')\<rparr>)" "''wf-1''" _ w0]
  by (simp add: mock_def)

text \<open>The claim as stated fails at the status 300: not 2xx, and no error.\<close>

theorem cancel_300_counterexample:
  "post (mock (Inr \<lparr>status_code = 300, body_text = '''',
       json = Inl (ValueError ''Expecting value'')\<rparr>))
       (''https://geobigdata.io/workflows/v1/workflows/'' @ ''wf-1'' @ ''/cancel'') (PStr '''') PNone
     = Inr \<lparr>status_code = 300, body_text = '''', json = Inl (ValueError ''Expecting value'')\<rparr>
   \<and> \<not> (200 \<le> (300::int) \<and> (300::int) < 300)
   \<and> cancel (mock (Inr \<lparr>status_code = 300, body_text = '''',
       json = Inl (ValueError ''Expecting value'')\<rparr>)) ''wf-1'' w0
     = (Inr (), \<lparr>stdout = [], debug_log = [''Canceling workflow: wf-1'']\<rparr>)"
  by (simp add: mock_def w0_def cancel_def raise_for_status_def logger_debug_def)

subsection \<open>events\<close>

text \<open>
  C5. \<^verbatim>\<open>events\<close> returns the \<^verbatim>\<open>Events\<close> field of the JSON body as it is: the value
  found under that key is the result, with nothing added, dropped or read. The only
  other effect is one debug line.
\<close>

theorem events_verbatim:
  assumes "get c (''https://geobigdata.io/workflows/v1/workflows/'' @ workflow_id @ ''/events'')
             = Inr r"
    and "json r = Inr b"
    and "getitem b (Key ''Events'') = Inr evs"
  shows "events c workflow_id w
           = (Inr evs, logger_debug (''Get events of workflow: '' @ workflow_id) w)"
proof -
  have "and_then (json r) (\<lambda>b. getitem b (Key ''Events'')) = Inr evs"
    using assms(2,3) by (simp add: and_then_def)
  with assms(1) show ?thesis
    by (simp add: events_def)
qed

text \<open>The body with the one event \<^verbatim>\<open>submitted\<close>.\<close>

theorem events_verbatim_witness:
  \<open>events (mock (Inr \<lparr>status_code = 200, body_text = ''{"Events": [{"type":"submitted"}]}'',
       json = Inr (PDict [(''Events'', PList [PDict [(''type'', PStr ''submitted'')]])])\<rparr>))
     ''wf-1'' w0
   = (Inr (PList [PDict [(''type'', PStr ''submitted'')]]),
      \<lparr>stdout = [], debug_log = [''Get events of workflow: wf-1'']\<rparr>)\<close>
  using events_verbatim [of
      \<open>mock (Inr \<lparr>status_code = 200, body_text = ''{"Events": [{"type":"submitted"}]}'',
       json = Inr (PDict [(''Events'', PList [PDict [(''type'', PStr ''submitted'')]])])\<rparr>)\<close>
      "''wf-1''" _ _ "PList [PDict [(''type'', PStr ''submitted'')]]" w0]
  by (simp add: mock_def w0_def logger_debug_def)

subsection \<open>describe\_task\<close>

text \<open>
  C8. The claim: \<^verbatim>\<open>describe_task\<close> fails when the status is not 2xx and returns the
  whole JSON body otherwise. The check is \<^verbatim>\<open>raise_for_status\<close>, so what holds is:
  it fails with the HTTPError carrying the code when the status is 4xx or 5xx (404 for
  an unknown name), and on every other status it returns what \<^verbatim>\<open>r.json()\<close> gives.
\<close>

theorem describe_task_by_status:
  assumes "get c (''https://geobigdata.io/workflows/v1/tasks/'' @ task_name) = Inr r"
  shows "(400 \<le> status_code r \<and> status_code r < 600 \<longrightarrow>
            describe_task c task_name w = (Inl (HTTPError (status_code r)), w))
       \<and> (\<not> (400 \<le> status_code r \<and> status_code r < 600) \<longrightarrow>
            describe_task c task_name w = (json r, w))"
  using assms raise_for_status_error [of r] raise_for_status_pass [of r]
  by (auto simp: describe_task_def and_then_def)

theorem describe_task_by_status_witness:
  "describe_task (mock (Inr \<lparr>status_code = 404, body_text = ''Not Found'',
       json = Inl (ValueError ''Expecting value'')\<rparr>)) ''NoSuchTask'' w0
     = (Inl (HTTPError 404), w0)
   \<and> describe_task (mock (Inr \<lparr>status_code = 200, body_text = ''{}'',
       json = Inr (PDict [(''name'', PStr ''AOP_Strip_Processor'')])\<rparr>)) ''AOP_Strip_Processor'' w0
     = (Inr (PDict [(''name'', PStr ''AOP_Strip_Processor'')]), w0)"
  using describe_task_by_status [of "mock (Inr \<lparr>status_code = 404, body_text = ''Not Found'',
       json = Inl (ValueError ''Expecting value'')\<rparr>)" "''NoSuchTask''" _ w0]
    describe_task_by_status [of "mock (Inr \<lparr>status_code = 200, body_text = ''{}'',
       json = Inr (PDict [(''name'', PStr ''AOP_Strip_Processor'')])\<rparr>)" "''AOP_Strip_Processor''" _ w0]
  by (simp add: mock_def)

text \<open>The claim as stated fails at the status 304: not 2xx, and the body is returned.\<close>

theorem describe_task_304_counterexample:
  "get (mock (Inr \<lparr>status_code = 304, body_text = ''{}'', json = Inr (PDict [])\<rparr>))
       (''https://geobigdata.io/workflows/v1/tasks/'' @ ''AOP_Strip_Processor'')
     = Inr \<lparr>status_code = 304, body_text = ''{}'', json = Inr (PDict [])\<rparr>
   \<and> \<not> (200 \<le> (304::int) \<and> (304::int) < 300)
   \<and> describe_task (mock (Inr \<lparr>status_code = 304, body_text = ''{}'', json = Inr (PDict [])\<rparr>))
       ''AOP_Strip_Processor'' w0 = (Inr (PDict []), w0)"
  by (simp add: mock_def describe_task_def raise_for_status_def and_then_def)

subsection \<open>The batch methods\<close>

text \<open>
  C7. \<^verbatim>\<open>batch_workflow_cancel\<close> posts to the cancel address of the batch with no
  body and returns what \<^verbatim>\<open>r.json()\<close> gives, whatever the status code is: the code
  is never read.
\<close>

theorem batch_workflow_cancel_unchecked:
  assumes "post c (''https://geobigdata.io/workflows/v1/batch_workflows/'' @ batch_workflow_id
                     @ ''/cancel'') PNone PNone = Inr r"
  shows "batch_workflow_cancel c batch_workflow_id w
           = (json r, logger_debug (''Cancel batch workflow: '' @ batch_workflow_id) w)"
  using assms by (simp add: batch_workflow_cancel_def)

text \<open>A server error whose body is JSON comes back as a result.\<close>

theorem batch_workflow_cancel_unchecked_witness:
  "batch_workflow_cancel (mock (Inr \<lparr>status_code = 500, body_text = ''{}'',
       json = Inr (PDict [])\<rparr>)) ''b-7'' w0
     = (Inr (PDict []), \<lparr>stdout = [], debug_log = [''Cancel batch workflow: b-7'']\<rparr>)"
  using batch_workflow_cancel_unchecked [of "mock (Inr \<lparr>status_code = 500, body_text = ''{}'',
       json = Inr (PDict [])\<rparr>)" "''b-7''" _ w0]
  by (simp add: mock_def w0_def logger_debug_def)

text \<open>
  C10. When the body of the \<^verbatim>\<open>try\<close> in \<^verbatim>\<open>launch_batch_workflow\<close> raises a
  TypeError, the handler reads \<^verbatim>\<open>e.message\<close>. On Python 3 that read raises an
  AttributeError, which leaves the method: nothing is logged and None is not returned.
\<close>

theorem launch_batch_workflow_AttributeError:
  assumes "launch_batch_try c batch_workflow = Inl (TypeError m)"
  shows "launch_batch_workflow Python3 c batch_workflow w
           = (Inl (AttributeError ''TypeError object has no attribute message''), w)"
proof -
  have "launch_batch_workflow Python3 c batch_workflow w
          = launch_batch_except Python3 (TypeError m) w"
    using assms by (simp add: launch_batch_workflow_def)
  also have "\<dots> = (Inl (AttributeError ''TypeError object has no attribute message''), w)"
    by (simp add: launch_batch_except_def)
  finally show ?thesis .
qed

theorem launch_batch_workflow_AttributeError_witness:
  "launch_batch_try (mock (Inl (TypeError ''Object of type set is not JSON serializable'')))
       (PStr ''x'') = Inl (TypeError ''Object of type set is not JSON serializable'')
   \<and> launch_batch_workflow Python3
       (mock (Inl (TypeError ''Object of type set is not JSON serializable''))) (PStr ''x'') w0
     = (Inl (AttributeError ''TypeError object has no attribute message''), w0)"
  using launch_batch_workflow_AttributeError [of
      "mock (Inl (TypeError ''Object of type set is not JSON serializable''))" "PStr ''x''"
      "''Object of type set is not JSON serializable''" w0]
  by (simp add: mock_def launch_batch_try_def and_then_def)

text \<open>
  The two ways to the handler, and what it does on Python 2: a response whose JSON body
  is a list raises the TypeError at the subscript, and Python 2 logs the reason and
  returns None.
\<close>

lemma launch_batch_try_list_body:
  "launch_batch_try (mock (Inr \<lparr>status_code = 200, body_text = ''[]'', json = Inr (PList [])\<rparr>))
       (PDict [])
     = Inl (TypeError ''list indices must be integers or slices, not str'')"
  by (simp add: launch_batch_try_def mock_def and_then_def)

lemma launch_batch_workflow_Python2:
  assumes "launch_batch_try c batch_workflow = Inl (TypeError m)"
  shows "launch_batch_workflow Python2 c batch_workflow w
           = (Inr PNone, logger_debug (''Batch Workflow not launched, reason: '' @ m) w)"
  using assms by (simp add: launch_batch_workflow_def launch_batch_except_def)

end
